theory Spec2Isabelle
  imports Complex_Main "HOL-Library.AList"
begin

section \<open>Strings\<close>

text \<open>
  Python strings are modelled as \<open>string\<close>; a \<open>char\<close> stands for a code point below 256.
  \<open>is_space\<close> is \<open>str.isspace\<close> on that range, \<open>strip\<close> is \<open>str.strip()\<close>,
  \<open>startswith\<close> is \<open>str.startswith\<close> and \<open>contains p s\<close> is \<open>p in s\<close>.
\<close>

definition is_space :: "char \<Rightarrow> bool" where
  "is_space c = (let n = of_char c :: nat in
     (9 \<le> n \<and> n \<le> 13) \<or> (28 \<le> n \<and> n \<le> 32) \<or> n = 133 \<or> n = 160)"

definition lstrip :: "string \<Rightarrow> string" where
  "lstrip s = dropWhile is_space s"

definition rstrip :: "string \<Rightarrow> string" where
  "rstrip s = rev (dropWhile is_space (rev s))"

definition strip :: "string \<Rightarrow> string" where
  "strip s = rstrip (lstrip s)"

definition startswith :: "string \<Rightarrow> string \<Rightarrow> bool" where
  "startswith p s = (take (length p) s = p)"

fun contains :: "string \<Rightarrow> string \<Rightarrow> bool" where
  "contains p [] = (p = [])"
| "contains p (c # cs) = (startswith p (c # cs) \<or> contains p cs)"

fun join :: "string \<Rightarrow> string list \<Rightarrow> string" where
  "join sep [] = []"
| "join sep [x] = x"
| "join sep (x # y # ys) = x @ sep @ join sep (y # ys)"

section \<open>Values of the json module and Python exceptions\<close>

text \<open>
  \<open>json\<close> is the value \<open>json.loads\<close> returns: \<open>JNull\<close> is \<open>None\<close>, an object is a
  \<open>dict\<close> kept as an association list in insertion order. No arithmetic is done on a float
  in \<open>api_server.py\<close>; a float is written as the rational it denotes.
\<close>

datatype json =
    JNull
  | JBool bool
  | JInt int
  | JFloat rat
  | JStr string
  | JArr "json list"
  | JObj "(string \<times> json) list"

datatype py_exn =
    JSONDecodeError
  | ValueError
  | RecursionError
  | TypeError
  | OverflowError
  | AttributeError
  | OSError
  | AccessDenied
  | NoSuchProcess
  | StartFailed
  | ServiceFailed

text \<open>
  \<open>json.loads\<close> is library code: every operation that decodes takes it as the parameter
  \<open>loads\<close>, which returns the decoded value or the exception raised
  (\<open>JSONDecodeError\<close> for a malformed document; \<open>RecursionError\<close> and \<open>ValueError\<close>
  are the others the decoder can raise).
\<close>

type_synonym decoder = "string \<Rightarrow> py_exn + json"

text \<open>\<open>d.get(key, default)\<close> on a decoded value; only a dict has \<open>get\<close>.\<close>

definition dict_get :: "json \<Rightarrow> string \<Rightarrow> json \<Rightarrow> py_exn + json" where
  "dict_get d k dflt =
     (case d of
        JObj kvs \<Rightarrow> (case map_of kvs k of None \<Rightarrow> Inr dflt | Some v \<Rightarrow> Inr v)
      | _ \<Rightarrow> Inl AttributeError)"

section \<open>Files\<close>

text \<open>
  What \<open>open\<close>, \<open>os.path.exists\<close> and \<open>os.remove\<close> see. A path-like argument is a string
  or, for \<open>os.stat\<close> and \<open>open\<close>, an integer file descriptor. A node that exists is a
  readable file with its text, or something \<open>open\<close> and \<open>os.remove\<close> fail on
  (a directory). Text is kept as written on a POSIX system; two different path strings are
  two different files.
\<close>

datatype pathlike = Path string | Fd int

datatype node = File string | Dir

type_synonym filesys = "pathlike \<Rightarrow> node option"

text \<open>
  \<open>os.path.exists(v)\<close> for a decoded value \<open>v\<close>: \<open>os.stat\<close> takes a string or an
  integer descriptor (a bool is an integer); its \<open>OSError\<close> and \<open>ValueError\<close> (embedded
  NUL) mean False, its \<open>TypeError\<close> and \<open>OverflowError\<close> propagate.
\<close>

definition fd_in_range :: "int \<Rightarrow> bool" where
  "fd_in_range n = (- (2 ^ 31) \<le> n \<and> n < 2 ^ 31)"

definition path_exists :: "filesys \<Rightarrow> json \<Rightarrow> py_exn + bool" where
  "path_exists fs v =
     (case v of
        JStr p \<Rightarrow> Inr (CHR 0x00 \<notin> set p \<and> fs (Path p) \<noteq> None)
      | JInt n \<Rightarrow> (if fd_in_range n then Inr (0 \<le> n \<and> fs (Fd n) \<noteq> None) else Inl OverflowError)
      | JBool b \<Rightarrow> Inr (fs (Fd (if b then 1 else 0)) \<noteq> None)
      | _ \<Rightarrow> Inl TypeError)"

text \<open>\<open>open(v, 'r')\<close> followed by reading the whole text.\<close>

definition read_node :: "node option \<Rightarrow> py_exn + string" where
  "read_node n = (case n of Some (File text) \<Rightarrow> Inr text | _ \<Rightarrow> Inl OSError)"

definition open_read :: "filesys \<Rightarrow> json \<Rightarrow> py_exn + string" where
  "open_read fs v =
     (case v of
        JStr p \<Rightarrow> (if CHR 0x00 \<in> set p then Inl ValueError else read_node (fs (Path p)))
      | JInt n \<Rightarrow> (if fd_in_range n then (if 0 \<le> n then read_node (fs (Fd n)) else Inl OSError)
                   else Inl OverflowError)
      | JBool b \<Rightarrow> read_node (fs (Fd (if b then 1 else 0)))
      | _ \<Rightarrow> Inl TypeError)"

text \<open>
  \<open>f.readlines()\<close> in text mode: universal newlines turn \<open>\r\n\<close> and \<open>\r\<close> into
  \<open>\n\<close>, and every line keeps its terminator; a last line without one is still a line.
\<close>

fun translate_newlines :: "string \<Rightarrow> string" where
  "translate_newlines [] = []"
| "translate_newlines [c] = (if c = CHR 0x0D then [CHR 0x0A] else [c])"
| "translate_newlines (c # d # cs) =
     (if c = CHR 0x0D then
        (if d = CHR 0x0A then CHR 0x0A # translate_newlines cs
         else CHR 0x0A # translate_newlines (d # cs))
      else c # translate_newlines (d # cs))"

fun split_lines :: "string \<Rightarrow> string \<Rightarrow> string list" where
  "split_lines cur [] = (if cur = [] then [] else [cur])"
| "split_lines cur (c # cs) =
     (if c = CHR 0x0A then (cur @ [c]) # split_lines [] cs else split_lines (cur @ [c]) cs)"

definition readlines :: "string \<Rightarrow> string list" where
  "readlines text = split_lines [] (translate_newlines text)"

section \<open>Reading the audit log\<close>

text \<open>
  Both readers start alike: \<open>audit_file\<close> is \<open>"audit.log"\<close> unless \<open>config.json\<close>
  exists, in which case it is \<open>config.get('audit_log_path', 'audit.log')\<close> of the decoded
  config file. \<open>audit_file_of\<close> is that common prefix, with the exception it can raise.
\<close>

definition audit_file_of :: "decoder \<Rightarrow> filesys \<Rightarrow> py_exn + json" where
  "audit_file_of loads fs =
     (if fs (Path ''config.json'') \<noteq> None then
        (case read_node (fs (Path ''config.json'')) of
           Inl e \<Rightarrow> Inl e
         | Inr text \<Rightarrow>
             (case loads text of
                Inl e \<Rightarrow> Inl e
              | Inr config \<Rightarrow> dict_get config ''audit_log_path'' (JStr ''audit.log'')))
      else Inr (JStr ''audit.log''))"

text \<open>
  \<open>read_latest_audit_record\<close>: the last line, stripped and decoded; \<open>None\<close> when the
  file is missing or empty, and \<open>None\<close> again from the handler of every exception.
  A decoded \<open>null\<close> is Python's \<open>None\<close> as well.
\<close>

definition read_latest_audit_record :: "decoder \<Rightarrow> filesys \<Rightarrow> json option" where
  "read_latest_audit_record loads fs =
     (case audit_file_of loads fs of
        Inl e \<Rightarrow> None
      | Inr audit_file \<Rightarrow>
          (case path_exists fs audit_file of
             Inl e \<Rightarrow> None
           | Inr False \<Rightarrow> None
           | Inr True \<Rightarrow>
               (case open_read fs audit_file of
                  Inl e \<Rightarrow> None
                | Inr text \<Rightarrow>
                    (let lines = readlines text in
                     if lines = [] then None
                     else (case loads (strip (last lines)) of
                             Inl e \<Rightarrow> None
                           | Inr JNull \<Rightarrow> None
                           | Inr record \<Rightarrow> Some record)))))"

text \<open>
  \<open>lines[start:]\<close> with Python's slice rules: a negative start counts from the end and
  is clamped at 0, a start past the end gives the empty list.
\<close>

definition slice_from :: "int \<Rightarrow> 'a list \<Rightarrow> 'a list" where
  "slice_from start xs =
     (if start < 0 then drop (nat (max 0 (int (length xs) + start))) xs
      else drop (nat start) xs)"

definition recent_lines :: "int \<Rightarrow> string list \<Rightarrow> string list" where
  "recent_lines limit lines =
     (if int (length lines) > limit then slice_from (- limit) lines else lines)"

text \<open>
  The loop of \<open>get_audit_log\<close> over the reversed lines: a decoded record is appended,
  \<open>JSONDecodeError\<close> continues with the next line, any other exception leaves the loop.
\<close>

fun collect_records :: "decoder \<Rightarrow> json list \<Rightarrow> string list \<Rightarrow> py_exn + json list" where
  "collect_records loads records [] = Inr records"
| "collect_records loads records (line # lines) =
     (case loads (strip line) of
        Inr record \<Rightarrow> collect_records loads (records @ [record]) lines
      | Inl e \<Rightarrow> (if e = JSONDecodeError then collect_records loads records lines else Inl e))"

datatype http_error = HTTPException nat

definition get_audit_log :: "decoder \<Rightarrow> filesys \<Rightarrow> int \<Rightarrow> http_error + json list" where
  "get_audit_log loads fs limit =
     (case audit_file_of loads fs of
        Inl e \<Rightarrow> Inl (HTTPException 500)
      | Inr audit_file \<Rightarrow>
          (case path_exists fs audit_file of
             Inl e \<Rightarrow> Inl (HTTPException 500)
           | Inr False \<Rightarrow> Inr []
           | Inr True \<Rightarrow>
               (case open_read fs audit_file of
                  Inl e \<Rightarrow> Inl (HTTPException 500)
                | Inr text \<Rightarrow>
                    (case collect_records loads [] (rev (recent_lines limit (readlines text))) of
                       Inl e \<Rightarrow> Inl (HTTPException 500)
                     | Inr records \<Rightarrow> Inr records))))"

section \<open>A decoder for examples\<close>

text \<open>
  \<open>loads_flat\<close> instantiates the \<open>loads\<close> parameter where an example is evaluated. It
  decodes one JSON object whose members are strings without escapes or \<open>null\<close>, with
  Python's dict rules (a repeated key keeps its place and takes the last value), and answers
  \<open>JSONDecodeError\<close> to everything else. On such objects, and on text that is no JSON
  document at all, this is what \<open>json.loads\<close> answers.
\<close>

datatype token = TLBrace | TRBrace | TColon | TComma | TStr string | TNull

text \<open>\<open>InLit rest\<close>: inside the literal \<open>null\<close>, with \<open>rest\<close> still to come.\<close>

datatype lex_mode = Top | InStr string | InLit string

fun scan :: "lex_mode \<Rightarrow> string \<Rightarrow> token list option" where
  "scan Top [] = Some []"
| "scan (InStr acc) [] = None"
| "scan (InLit rest) [] = None"
| "scan Top (c # cs) =
     (if c = CHR 0x20 \<or> c = CHR 0x09 \<or> c = CHR 0x0A \<or> c = CHR 0x0D then scan Top cs
      else if c = CHR 0x7B then map_option (Cons TLBrace) (scan Top cs)
      else if c = CHR 0x7D then map_option (Cons TRBrace) (scan Top cs)
      else if c = CHR 0x3A then map_option (Cons TColon) (scan Top cs)
      else if c = CHR 0x2C then map_option (Cons TComma) (scan Top cs)
      else if c = CHR 0x22 then scan (InStr []) cs
      else if c = CHR ''n'' then scan (InLit ''ull'') cs
      else None)"
| "scan (InStr acc) (c # cs) =
     (if c = CHR 0x22 then map_option (Cons (TStr acc)) (scan Top cs)
      else if c = CHR 0x5C \<or> (of_char c :: nat) < 32 then None
      else scan (InStr (acc @ [c])) cs)"
| "scan (InLit []) (c # cs) = None"
| "scan (InLit (e # rest)) (c # cs) =
     (if c \<noteq> e then None
      else if rest = [] then map_option (Cons TNull) (scan Top cs)
      else scan (InLit rest) cs)"

fun value_of :: "token \<Rightarrow> json option" where
  "value_of (TStr v) = Some (JStr v)"
| "value_of TNull = Some JNull"
| "value_of t = None"

fun members :: "(string \<times> json) list \<Rightarrow> token list \<Rightarrow> (string \<times> json) list option" where
  "members acc [TRBrace] = Some acc"
| "members acc (TComma # TStr k # TColon # t # rest) =
     (case value_of t of None \<Rightarrow> None | Some v \<Rightarrow> members (AList.update k v acc) rest)"
| "members acc _ = None"

fun object :: "token list \<Rightarrow> (string \<times> json) list option" where
  "object [TLBrace, TRBrace] = Some []"
| "object (TLBrace # TStr k # TColon # t # rest) =
     (case value_of t of None \<Rightarrow> None | Some v \<Rightarrow> members [(k, v)] rest)"
| "object _ = None"

definition loads_flat :: decoder where
  "loads_flat s =
     (case scan Top s of
        None \<Rightarrow> Inl JSONDecodeError
      | Some ts \<Rightarrow> (case object ts of None \<Rightarrow> Inl JSONDecodeError | Some kvs \<Rightarrow> Inr (JObj kvs)))"

section \<open>Integers as text\<close>

text \<open>
  \<open>py_int\<close> is \<open>int(s)\<close> on a string that \<open>strip()\<close> has returned, as at its
  one call: one sign is allowed, the digits may be grouped by single underscores, and more
  than 4300 digits are refused; \<open>None\<close> stands for the \<open>ValueError\<close>.
  \<open>str_int\<close> is \<open>str(n)\<close>.
\<close>

definition is_digit :: "char \<Rightarrow> bool" where
  "is_digit c = (48 \<le> (of_char c :: nat) \<and> (of_char c :: nat) \<le> 57)"

fun parse_digits :: "bool \<Rightarrow> nat \<Rightarrow> string \<Rightarrow> nat option" where
  "parse_digits after_digit acc [] = (if after_digit then Some acc else None)"
| "parse_digits after_digit acc (c # cs) =
     (if is_digit c then parse_digits True (10 * acc + (of_char c - 48)) cs
      else if c = CHR 0x5F \<and> after_digit then parse_digits False acc cs
      else None)"

definition py_int :: "string \<Rightarrow> int option" where
  "py_int s =
     (if length (filter is_digit s) > 4300 then None
      else (case s of
              [] \<Rightarrow> None
            | c # cs \<Rightarrow>
                if c = CHR 0x2D then map_option (\<lambda>n. - int n) (parse_digits False 0 cs)
                else if c = CHR 0x2B then map_option int (parse_digits False 0 cs)
                else map_option int (parse_digits False 0 s)))"

definition digit_char :: "nat \<Rightarrow> char" where
  "digit_char d = char_of (48 + d)"

function str_nat :: "nat \<Rightarrow> string" where
  "str_nat n = (if n < 10 then [digit_char n] else str_nat (n div 10) @ [digit_char (n mod 10)])"
  by pat_completeness auto
termination
  by (relation "measure id") auto

declare str_nat.simps [simp del]

definition str_int :: "int \<Rightarrow> string" where
  "str_int i = (if i < 0 then CHR 0x2D # str_nat (nat (- i)) else str_nat (nat i))"

section \<open>Processes and the supervisor's world\<close>

text \<open>
  \<open>psutil\<close> and \<open>subprocess\<close> are modelled by a process table; requests are handled one
  at a time and nothing but the supervisor changes the world while it runs.
  A process has the command line \<open>psutil\<close> reports (\<open>None\<close> when reading it is denied),
  says whether the supervisor may signal it, how many seconds it needs to exit after the
  termination signal (\<open>None\<close>: it ignores the signal), and whether it exits by itself
  while the supervisor sleeps.
  The table \<open>procs\<close> is in the order \<open>psutil.process_iter\<close> yields it; \<open>spawns\<close> is
  what the next calls of \<open>subprocess.Popen\<close> create (\<open>Popen\<close> raises when it is empty);
  \<open>events\<close> records, in order, the signals sent, the waits and the processes started.
\<close>

record proc =
  cmdline :: "string list option"
  signalable :: bool
  term_delay :: "nat option"
  short_lived :: bool

datatype event = Terminate int | Wait int nat | Kill int | Popen int

record world =
  files :: filesys
  procs :: "(int \<times> proc) list"
  spawns :: "(int \<times> proc) list"
  events :: "event list"

definition project_pid_file :: string where
  "project_pid_file = ''project_service.pid''"

text \<open>\<open>psutil.pid_exists\<close>: a negative pid does not exist, one beyond a C int overflows.\<close>

definition pid_exists :: "world \<Rightarrow> int \<Rightarrow> py_exn + bool" where
  "pid_exists w pid =
     (if pid < 0 then Inr False
      else if 2 ^ 31 \<le> pid then Inl OverflowError
      else Inr (map_of (procs w) pid \<noteq> None))"

text \<open>
  The first block of \<open>is_project_running\<close>: the pid of the pid file when that process
  exists and \<open>'project.py'\<close> occurs in its joined command line; \<open>Inr None\<close> falls through
  to the scan of all processes.
\<close>

definition pid_file_check :: "world \<Rightarrow> py_exn + int option" where
  "pid_file_check w =
     (if files w (Path project_pid_file) \<noteq> None then
        (case read_node (files w (Path project_pid_file)) of
           Inl e \<Rightarrow> Inl e
         | Inr text \<Rightarrow>
             (case py_int (strip text) of
                None \<Rightarrow> Inl ValueError
              | Some pid \<Rightarrow>
                  (case pid_exists w pid of
                     Inl e \<Rightarrow> Inl e
                   | Inr False \<Rightarrow> Inr None
                   | Inr True \<Rightarrow>
                       (case map_of (procs w) pid of
                          None \<Rightarrow> Inl NoSuchProcess
                        | Some p \<Rightarrow>
                            (case cmdline p of
                               None \<Rightarrow> Inl AccessDenied
                             | Some args \<Rightarrow>
                                 if contains ''project.py'' (join '' '' args) then Inr (Some pid)
                                 else Inr None)))))
      else Inr None)"

fun scan_procs :: "(int \<times> proc) list \<Rightarrow> int option" where
  "scan_procs [] = None"
| "scan_procs ((pid, p) # rest) =
     (case cmdline p of
        None \<Rightarrow> scan_procs rest
      | Some args \<Rightarrow>
          if args \<noteq> [] \<and> list_ex (contains ''project.py'') args then Some pid
          else scan_procs rest)"

definition is_project_running :: "world \<Rightarrow> bool \<times> int option" where
  "is_project_running w =
     (case pid_file_check w of
        Inl e \<Rightarrow> (False, None)
      | Inr (Some pid) \<Rightarrow> (True, Some pid)
      | Inr None \<Rightarrow>
          (case scan_procs (procs w) of
             Some pid \<Rightarrow> (True, Some pid)
           | None \<Rightarrow> (False, None)))"

text \<open>\<open>open(path, 'w')\<close> and one \<open>write\<close>; \<open>os.remove(path)\<close>.\<close>

definition write_file :: "string \<Rightarrow> string \<Rightarrow> world \<Rightarrow> (py_exn + unit) \<times> world" where
  "write_file path text w =
     (case files w (Path path) of
        Some Dir \<Rightarrow> (Inl OSError, w)
      | _ \<Rightarrow> (Inr (), w\<lparr>files := (files w)(Path path \<mapsto> File text)\<rparr>))"

definition remove_file :: "string \<Rightarrow> world \<Rightarrow> (py_exn + unit) \<times> world" where
  "remove_file path w =
     (case files w (Path path) of
        Some (File text) \<Rightarrow> (Inr (), w\<lparr>files := (files w)(Path path := None)\<rparr>)
      | _ \<Rightarrow> (Inl OSError, w))"

definition removed :: "int \<Rightarrow> (int \<times> proc) list \<Rightarrow> (int \<times> proc) list" where
  "removed pid ps = filter (\<lambda>(q, p). q \<noteq> pid) ps"

definition log_event :: "event \<Rightarrow> world \<Rightarrow> world" where
  "log_event ev w = w\<lparr>events := events w @ [ev]\<rparr>"

text \<open>
  \<open>start_project_service\<close>: \<open>Popen(['python', 'project.py'])\<close>, then the pid is written
  to the pid file. Every exception is raised again as \<open>Exception("Failed to start ...")\<close>;
  a process started before the pid file could not be written stays in the table.
\<close>

definition start_project_service :: "world \<Rightarrow> (py_exn + int) \<times> world" where
  "start_project_service w =
     (case spawns w of
        [] \<Rightarrow> (Inl StartFailed, w)
      | (pid, p) # rest \<Rightarrow>
          (let child = p\<lparr>cmdline := Some [''python'', ''project.py'']\<rparr>;
               w1 = log_event (Popen pid)
                      (w\<lparr>procs := insort_key fst (pid, child) (procs w), spawns := rest\<rparr>)
           in (case write_file project_pid_file (str_int pid) w1 of
                 (Inl e, w2) \<Rightarrow> (Inl StartFailed, w2)
               | (Inr u, w2) \<Rightarrow> (Inr pid, w2))))"

text \<open>
  \<open>stop_project_service\<close>. \<open>stop_pid\<close> is the \<open>try\<close> block: \<open>terminate()\<close>,
  \<open>wait(timeout=10)\<close>, \<open>kill()\<close> in the handler of \<open>TimeoutExpired\<close>, then the pid
  file is removed when it exists; the handler of every other exception returns False.
\<close>

definition exits_within :: "nat \<Rightarrow> proc \<Rightarrow> bool" where
  "exits_within timeout p = (case term_delay p of None \<Rightarrow> False | Some d \<Rightarrow> d \<le> timeout)"

definition stop_pid :: "int \<Rightarrow> world \<Rightarrow> bool \<times> world" where
  "stop_pid pid w =
     (case map_of (procs w) pid of
        None \<Rightarrow> (False, w)
      | Some p \<Rightarrow>
          (let w1 = log_event (Terminate pid) w in
           if signalable p then
             (let w2 = log_event (Wait pid 10) w1;
                  w3 = (if exits_within 10 p then w2 else log_event (Kill pid) w2);
                  w4 = w3\<lparr>procs := removed pid (procs w3)\<rparr>
              in if files w4 (Path project_pid_file) \<noteq> None then
                   (case remove_file project_pid_file w4 of
                      (Inl e, w5) \<Rightarrow> (False, w5)
                    | (Inr u, w5) \<Rightarrow> (True, w5))
                 else (True, w4))
           else (False, w1)))"

definition stop_project_service :: "world \<Rightarrow> bool \<times> world" where
  "stop_project_service w =
     (case is_project_running w of
        (running, Some pid) \<Rightarrow> (if running \<and> pid \<noteq> 0 then stop_pid pid w else (True, w))
      | (running, None) \<Rightarrow> (True, w))"

text \<open>\<open>await asyncio.sleep(...)\<close>: the processes that exit by themselves are gone.\<close>

definition sleep :: "world \<Rightarrow> world" where
  "sleep w = w\<lparr>procs := filter (\<lambda>(pid, p). \<not> short_lived p) (procs w)\<rparr>"

section \<open>Requests and the files written for the engine\<close>

text \<open>
  The body of a configure request as FastAPI hands it to pydantic: the two required
  strings, and for every optional field whether the body omits it, gives \<open>null\<close> or
  gives a value. \<open>ConfigurationRequest\<close> is the validated model: an omitted field has
  its default, \<open>None\<close> is Python's \<open>None\<close>.
\<close>

datatype 'a field = Omitted | Null | Given 'a

record request_body =
  body_api_base_url :: string
  body_api_key :: string
  body_api_secret :: "string field"
  body_risk_free_rate :: "rat field"
  body_rebalance_interval :: "int field"
  body_target_sharpe :: "rat field"
  body_cov_window :: "int field"
  body_price_endpoint :: "string field"
  body_position_endpoint :: "string field"
  body_audit_log_path :: "string field"

record ConfigurationRequest =
  api_base_url :: string
  api_key :: string
  api_secret :: "string option"
  risk_free_rate :: "rat option"
  rebalance_interval :: "int option"
  target_sharpe :: "rat option"
  cov_window :: "int option"
  price_endpoint :: "string option"
  position_endpoint :: "string option"
  audit_log_path :: "string option"

definition with_default :: "'a option \<Rightarrow> 'a field \<Rightarrow> 'a option" where
  "with_default dflt f = (case f of Omitted \<Rightarrow> dflt | Null \<Rightarrow> None | Given v \<Rightarrow> Some v)"

definition validate_https_url :: "string \<Rightarrow> py_exn + string" where
  "validate_https_url v = (if startswith ''https://'' v then Inr v else Inl ValueError)"

definition validate_request :: "request_body \<Rightarrow> py_exn + ConfigurationRequest" where
  "validate_request body =
     (case validate_https_url (body_api_base_url body) of
        Inl e \<Rightarrow> Inl e
      | Inr url \<Rightarrow>
          Inr \<lparr>api_base_url = url,
               api_key = body_api_key body,
               api_secret = with_default (Some []) (body_api_secret body),
               risk_free_rate = with_default (Some (2 / 100)) (body_risk_free_rate body),
               rebalance_interval = with_default (Some 300) (body_rebalance_interval body),
               target_sharpe = with_default None (body_target_sharpe body),
               cov_window = with_default (Some 60) (body_cov_window body),
               price_endpoint = with_default (Some ''/prices'') (body_price_endpoint body),
               position_endpoint = with_default (Some ''/positions'') (body_position_endpoint body),
               audit_log_path = with_default (Some ''audit.log'') (body_audit_log_path body)\<rparr>)"

definition env_content :: "ConfigurationRequest \<Rightarrow> string" where
  "env_content config =
     ''API_URL='' @ api_base_url config @ [CHR 0x0A] @
     ''API_TOKEN='' @ api_key config @ [CHR 0x0A]"

definition create_env_file :: "ConfigurationRequest \<Rightarrow> world \<Rightarrow> (py_exn + unit) \<times> world" where
  "create_env_file config w = write_file ''.env'' (env_content config) w"

definition opt_json :: "('a \<Rightarrow> json) \<Rightarrow> 'a option \<Rightarrow> json" where
  "opt_json f v = (case v of None \<Rightarrow> JNull | Some x \<Rightarrow> f x)"

definition config_data :: "ConfigurationRequest \<Rightarrow> json" where
  "config_data config =
     JObj [(''risk_free_rate'', opt_json JFloat (risk_free_rate config)),
           (''rebalance_interval'', opt_json JInt (rebalance_interval config)),
           (''target_sharpe'', opt_json JFloat (target_sharpe config)),
           (''cov_window'', opt_json JInt (cov_window config)),
           (''price_endpoint'', opt_json JStr (price_endpoint config)),
           (''position_endpoint'', opt_json JStr (position_endpoint config)),
           (''audit_log_path'', opt_json JStr (audit_log_path config))]"

text \<open>
  \<open>json.dump(config_data, f, indent=2)\<close> is library code as well: \<open>dumps\<close> is the text
  it writes for a value.
\<close>

type_synonym encoder = "json \<Rightarrow> string"

definition create_config_file ::
  "encoder \<Rightarrow> ConfigurationRequest \<Rightarrow> world \<Rightarrow> (py_exn + unit) \<times> world" where
  "create_config_file dumps config w = write_file ''config.json'' (dumps (config_data config)) w"

section \<open>The endpoints\<close>

text \<open>
  An endpoint returns the response body or the \<open>HTTPException\<close> with its status code.
  A body that fails validation is answered with status 422 by FastAPI and the endpoint
  function is not entered.
\<close>

definition configure_service ::
  "encoder \<Rightarrow> request_body \<Rightarrow> world \<Rightarrow> (http_error + string) \<times> world" where
  "configure_service dumps body w =
     (case validate_request body of
        Inl e \<Rightarrow> (Inl (HTTPException 422), w)
      | Inr config \<Rightarrow>
          (let w1 = snd (stop_project_service w) in
           case create_env_file config w1 of
             (Inl e, w2) \<Rightarrow> (Inl (HTTPException 400), w2)
           | (Inr u, w2) \<Rightarrow>
               (case create_config_file dumps config w2 of
                  (Inl e, w3) \<Rightarrow> (Inl (HTTPException 400), w3)
                | (Inr u, w3) \<Rightarrow>
                    (case start_project_service w3 of
                       (Inl e, w4) \<Rightarrow> (Inl (HTTPException 400), w4)
                     | (Inr started, w4) \<Rightarrow>
                         (let w5 = sleep w4 in
                          case is_project_running w5 of
                            (True, Some pid) \<Rightarrow>
                              (Inr (''Portfolio service configured and started successfully (PID: ''
                                    @ str_int pid @ '')''), w5)
                          | (True, None) \<Rightarrow>
                              (Inr ''Portfolio service configured and started successfully (PID: None)'', w5)
                          | (False, pid) \<Rightarrow> (Inl (HTTPException 400), w5))))))"

definition stop_service :: "world \<Rightarrow> (http_error + string) \<times> world" where
  "stop_service w =
     (case stop_project_service w of
        (True, w1) \<Rightarrow> (Inr ''Portfolio service stopped successfully'', w1)
      | (False, w1) \<Rightarrow> (Inl (HTTPException 500), w1))"


section \<open>An encoder for examples\<close>

text \<open>
  \<open>dumps_indent2\<close> instantiates the \<open>dumps\<close> parameter where an example is evaluated:
  the layout of \<open>json.dumps(v, indent=2)\<close> with the default separators and
  \<open>ensure_ascii\<close>. A float is printed in positional notation with at most 17 decimals,
  which is \<open>repr\<close> for the floats of the examples.
\<close>

definition hex_digit :: "nat \<Rightarrow> char" where
  "hex_digit d = (if d < 10 then char_of (48 + d) else char_of (87 + d))"

definition escape_char :: "char \<Rightarrow> string" where
  "escape_char c =
     (let n = of_char c :: nat in
      if c = CHR 0x22 then [CHR 0x5C, CHR 0x22]
      else if c = CHR 0x5C then [CHR 0x5C, CHR 0x5C]
      else if c = CHR 0x0A then [CHR 0x5C, CHR ''n'']
      else if c = CHR 0x0D then [CHR 0x5C, CHR ''r'']
      else if c = CHR 0x09 then [CHR 0x5C, CHR ''t'']
      else if c = CHR 0x08 then [CHR 0x5C, CHR ''b'']
      else if c = CHR 0x0C then [CHR 0x5C, CHR ''f'']
      else if n < 32 \<or> 126 < n then
        [CHR 0x5C, CHR ''u'', CHR ''0'', CHR ''0'', hex_digit (n div 16), hex_digit (n mod 16)]
      else [c])"

definition quote :: "string \<Rightarrow> string" where
  "quote s = [CHR 0x22] @ concat (map escape_char s) @ [CHR 0x22]"

fun frac_digits :: "nat \<Rightarrow> nat \<Rightarrow> nat \<Rightarrow> string" where
  "frac_digits 0 r q = []"
| "frac_digits (Suc k) r q =
     (if r = 0 then [] else digit_char (10 * r div q) # frac_digits k (10 * r mod q) q)"

definition float_repr :: "rat \<Rightarrow> string" where
  "float_repr x =
     (case quotient_of x of
        (p, q) \<Rightarrow>
          (let a = nat \<bar>p\<bar>; b = nat q; ds = frac_digits 17 (a mod b) b in
           (if p < 0 then ''-'' else []) @ str_nat (a div b) @ ''.'' @ (if ds = [] then ''0'' else ds)))"

definition pad :: "nat \<Rightarrow> string" where
  "pad level = replicate (2 * level) (CHR 0x20)"

fun dumps_at :: "nat \<Rightarrow> json \<Rightarrow> string" where
  "dumps_at level JNull = ''null''"
| "dumps_at level (JBool b) = (if b then ''true'' else ''false'')"
| "dumps_at level (JInt i) = str_int i"
| "dumps_at level (JFloat x) = float_repr x"
| "dumps_at level (JStr s) = quote s"
| "dumps_at level (JArr xs) =
     (if xs = [] then ''[]''
      else ''['' @ [CHR 0x0A] @ pad (Suc level)
           @ join ('','' @ [CHR 0x0A] @ pad (Suc level)) (map (dumps_at (Suc level)) xs)
           @ [CHR 0x0A] @ pad level @ '']'')"
| "dumps_at level (JObj kvs) =
     (if kvs = [] then ''{}''
      else ''{'' @ [CHR 0x0A] @ pad (Suc level)
           @ join ('','' @ [CHR 0x0A] @ pad (Suc level))
               (map (\<lambda>kv. quote (fst kv) @ '': '' @ dumps_at (Suc level) (snd kv)) kvs)
           @ [CHR 0x0A] @ pad level @ ''}'')"

definition dumps_indent2 :: encoder where
  "dumps_indent2 v = dumps_at 0 v"

section \<open>PortfolioConfig\<close>

text \<open>
  Modelled from the spec: \<open>PortfolioConfig\<close> is a class of \<open>project.py\<close>, which is not
  among the sources; only its test \<open>test_enhanced_config_validation\<close> is. The spec's
  rules: the asset symbols are non-empty and unique, the risk-free rate lies in [0,1], the
  minimum weight is below the maximum weight, the covariance window and the rebalance
  interval are positive; construction fails with every violated rule, and succeeds with
  the snapshot otherwise. Rates and weights are rationals.
\<close>

datatype config_error =
    EmptyAssets
  | DuplicateSymbols
  | RiskFreeRateRange
  | WeightOrder
  | NonPositiveWindow
  | NonPositiveInterval

record portfolio_config =
  assets :: "string list"
  pc_risk_free_rate :: rat
  min_weight_per_asset :: rat
  max_weight_per_asset :: rat
  pc_cov_window :: int
  pc_rebalance_interval :: int

definition violations :: "portfolio_config \<Rightarrow> config_error list" where
  "violations c =
     (if assets c = [] then [EmptyAssets] else [])
     @ (if distinct (assets c) then [] else [DuplicateSymbols])
     @ (if 0 \<le> pc_risk_free_rate c \<and> pc_risk_free_rate c \<le> 1 then [] else [RiskFreeRateRange])
     @ (if min_weight_per_asset c < max_weight_per_asset c then [] else [WeightOrder])
     @ (if 0 < pc_cov_window c then [] else [NonPositiveWindow])
     @ (if 0 < pc_rebalance_interval c then [] else [NonPositiveInterval])"

definition PortfolioConfig :: "portfolio_config \<Rightarrow> config_error list + portfolio_config" where
  "PortfolioConfig c = (if violations c = [] then Inr c else Inl (violations c))"

section \<open>Example inputs\<close>

text \<open>
  \<open>three_records\<close> holds an audit log of three complete records; in \<open>torn_log\<close> the
  writer was cut off in the second line.
\<close>

definition three_records :: filesys where
  "three_records =
     Map.empty(Path ''audit.log'' \<mapsto>
       File (''{\"timestamp\": \"t1\"}'' @ [CHR 0x0A] @
             ''{\"timestamp\": \"t2\"}'' @ [CHR 0x0A] @
             ''{\"timestamp\": \"t3\"}'' @ [CHR 0x0A]))"

text \<open>
  \<open>moved_log\<close> has a \<open>config.json\<close> that names another audit log, which does not
  exist; the \<open>config.json\<close> of \<open>corrupt_config\<close> is cut off. Neither holds a log.
\<close>

definition moved_log :: filesys where
  "moved_log = Map.empty(Path ''config.json'' \<mapsto> File ''{\"audit_log_path\": \"logs/audit.log\"}'')"

definition corrupt_config :: filesys where
  "corrupt_config = Map.empty(Path ''config.json'' \<mapsto> File ''{\"audit_log_path\": \"aud'')"

definition torn_log :: filesys where
  "torn_log =
     Map.empty(Path ''audit.log'' \<mapsto>
       File (''{\"timestamp\": \"t1\"}'' @ [CHR 0x0A] @ ''{\"timest''))"

text \<open>
  \<open>engine\<close> is a process as \<open>python project.py\<close> shows up: it may be signalled and
  exits two seconds after the termination signal. In \<open>one_engine\<close> it runs under the pid
  the pid file records; \<open>two_engines\<close> has a second one, started by another user, that
  the supervisor may not signal; in \<open>idle_world\<close> nothing runs.
\<close>

definition engine :: proc where
  "engine = \<lparr>cmdline = Some [''python'', ''project.py''], signalable = True,
             term_delay = Some 2, short_lived = False\<rparr>"

definition one_engine :: world where
  "one_engine =
     \<lparr>files = Map.empty(Path ''project_service.pid'' \<mapsto> File ''100''),
      procs = [(100, engine)], spawns = [(200, engine)], events = []\<rparr>"

definition two_engines :: world where
  "two_engines =
     \<lparr>files = Map.empty(Path ''project_service.pid'' \<mapsto> File ''100''),
      procs = [(50, engine\<lparr>signalable := False\<rparr>), (100, engine)],
      spawns = [(200, engine)], events = []\<rparr>"

definition idle_world :: world where
  "idle_world = \<lparr>files = Map.empty, procs = [], spawns = [(200, engine)], events = []\<rparr>"

text \<open>
  Request bodies: one with the defaults, one whose venue URL is not HTTPS; and a validated
  request whose access token holds a line break.
\<close>

definition body_defaults :: request_body where
  "body_defaults =
     \<lparr>body_api_base_url = ''https://venue.example'', body_api_key = ''k1'',
      body_api_secret = Given ''s3'', body_risk_free_rate = Omitted,
      body_rebalance_interval = Given 120, body_target_sharpe = Omitted,
      body_cov_window = Null, body_price_endpoint = Omitted,
      body_position_endpoint = Omitted, body_audit_log_path = Omitted\<rparr>"

text \<open>
  A body that gives \<open>null\<close> for the numbers and for \<open>audit_log_path\<close>, which
  \<open>Optional\<close> admits.
\<close>

definition body_null_path :: request_body where
  "body_null_path =
     \<lparr>body_api_base_url = ''https://venue.example'', body_api_key = ''k1'',
      body_api_secret = Omitted, body_risk_free_rate = Null,
      body_rebalance_interval = Null, body_target_sharpe = Omitted,
      body_cov_window = Null, body_price_endpoint = Omitted,
      body_position_endpoint = Omitted, body_audit_log_path = Null\<rparr>"

definition body_http :: request_body where
  "body_http = body_defaults\<lparr>body_api_base_url := ''http://venue.example''\<rparr>"

definition multiline_key :: ConfigurationRequest where
  "multiline_key =
     \<lparr>api_base_url = ''https://venue.example'',
      api_key = ''k1'' @ [CHR 0x0A] @ ''API_SECRET=s3'',
      api_secret = Some ''s3'', risk_free_rate = Some (2 / 100),
      rebalance_interval = Some 300, target_sharpe = None, cov_window = Some 60,
      price_endpoint = Some ''/prices'', position_endpoint = Some ''/positions'',
      audit_log_path = Some ''audit.log''\<rparr>"

definition plain_key :: ConfigurationRequest where
  "plain_key = multiline_key\<lparr>api_key := ''k1''\<rparr>"

text \<open>The configuration of the test, with the asset list the spec names.\<close>

definition btc_eth_btc :: portfolio_config where
  "btc_eth_btc =
     \<lparr>assets = [''BTC'', ''ETH'', ''BTC''], pc_risk_free_rate = 2 / 100,
      min_weight_per_asset = 5 / 100, max_weight_per_asset = 4 / 10,
      pc_cov_window = 60, pc_rebalance_interval = 300\<rparr>"

section \<open>Lemmas: lines and records\<close>

lemma collect_records_all:
  "\<forall>l \<in> set ls. loads (strip l) = Inr (f l) \<Longrightarrow>
   collect_records loads acc ls = Inr (acc @ map f ls)"
  by (induction ls arbitrary: acc) auto

lemma recent_lines_pos:
  "0 < limit \<Longrightarrow> recent_lines limit ls = drop (length ls - nat limit) ls"
  by (auto simp: recent_lines_def slice_from_def max_def nat_diff_distrib'
      intro!: arg_cong2[where f=drop])

lemma translate_newlines_id: "CHR 0x0D \<notin> set s \<Longrightarrow> translate_newlines s = s"
  by (induction s rule: translate_newlines.induct) auto

lemma split_lines_line:
  "CHR 0x0A \<notin> set s \<Longrightarrow>
   split_lines cur (s @ CHR 0x0A # rest) = (cur @ s @ [CHR 0x0A]) # split_lines [] rest"
  by (induction s arbitrary: cur) auto

lemma three_records_lines:
  "readlines (''{\"timestamp\": \"t1\"}'' @ [CHR 0x0A] @
              ''{\"timestamp\": \"t2\"}'' @ [CHR 0x0A] @
              ''{\"timestamp\": \"t3\"}'' @ [CHR 0x0A]) =
   [''{\"timestamp\": \"t1\"}'' @ [CHR 0x0A],
    ''{\"timestamp\": \"t2\"}'' @ [CHR 0x0A],
    ''{\"timestamp\": \"t3\"}'' @ [CHR 0x0A]]"
  by (simp add: readlines_def)

lemma loads_flat_t2:
  "loads_flat (strip (''{\"timestamp\": \"t2\"}'' @ [CHR 0x0A])) =
     Inr (JObj [(''timestamp'', JStr ''t2'')])"
  by (simp add: loads_flat_def strip_def lstrip_def rstrip_def is_space_def)

lemma loads_flat_t3:
  "loads_flat (strip (''{\"timestamp\": \"t3\"}'' @ [CHR 0x0A])) =
     Inr (JObj [(''timestamp'', JStr ''t3'')])"
  by (simp add: loads_flat_def strip_def lstrip_def rstrip_def is_space_def)

lemma loads_flat_t1:
  "loads_flat (strip (''{\"timestamp\": \"t1\"}'' @ [CHR 0x0A])) =
     Inr (JObj [(''timestamp'', JStr ''t1'')])"
  by (simp add: loads_flat_def strip_def lstrip_def rstrip_def is_space_def)

section \<open>Lemmas: what the process operations leave alone\<close>

lemma log_event_simps [simp]:
  "files (log_event ev w) = files w"
  "procs (log_event ev w) = procs w"
  "spawns (log_event ev w) = spawns w"
  "events (log_event ev w) = events w @ [ev]"
  by (simp_all add: log_event_def)

lemma sleep_simps [simp]:
  "files (sleep w) = files w"
  "spawns (sleep w) = spawns w"
  "events (sleep w) = events w"
  by (simp_all add: sleep_def)

lemma write_file_ok:
  "files w (Path path) \<noteq> Some Dir \<Longrightarrow>
   write_file path text w = (Inr (), w\<lparr>files := (files w)(Path path \<mapsto> File text)\<rparr>)"
  by (auto simp: write_file_def split: option.splits node.splits)

lemma map_of_removed [simp]: "map_of (removed pid ps) pid = None"
  by (induction ps) (auto simp: removed_def)

lemma stop_pid_files_other:
  "q \<noteq> Path project_pid_file \<Longrightarrow> files (snd (stop_pid pid w)) q = files w q"
  by (auto simp: stop_pid_def Let_def remove_file_def
      split: option.splits node.splits prod.splits sum.splits)

lemma stop_pid_spawns [simp]: "spawns (snd (stop_pid pid w)) = spawns w"
  by (auto simp: stop_pid_def Let_def remove_file_def
      split: option.splits node.splits prod.splits sum.splits)

lemma stop_files_other:
  "q \<noteq> Path project_pid_file \<Longrightarrow> files (snd (stop_project_service w)) q = files w q"
  by (auto simp: stop_project_service_def stop_pid_files_other split: prod.splits option.splits)

lemma stop_spawns [simp]: "spawns (snd (stop_project_service w)) = spawns w"
  by (auto simp: stop_project_service_def split: prod.splits option.splits)

lemma start_files_other:
  "q \<noteq> Path project_pid_file \<Longrightarrow> files (snd (start_project_service w)) q = files w q"
  by (auto simp: start_project_service_def Let_def write_file_def
      split: list.splits prod.splits sum.splits option.splits node.splits)


text \<open>A process the liveness check reports is in the process table.\<close>

lemma scan_procs_in_table: "scan_procs ps = Some pid \<Longrightarrow> map_of ps pid \<noteq> None"
  by (induction ps rule: scan_procs.induct) (auto split: option.splits if_splits)

lemma is_project_running_in_table:
  "is_project_running w = (True, Some pid) \<Longrightarrow> \<exists>p. map_of (procs w) pid = Some p"
  by (auto simp: is_project_running_def pid_file_check_def pid_exists_def
      split: sum.splits option.splits if_splits bool.splits dest: scan_procs_in_table)

lemma stop_pid_success_pid_file:
  "fst (stop_pid pid w) \<Longrightarrow> files (snd (stop_pid pid w)) (Path project_pid_file) = None"
  by (auto simp: stop_pid_def Let_def remove_file_def split: option.splits node.splits if_splits)

lemma idle_after_removal:
  "files w (Path project_pid_file) = None \<Longrightarrow> scan_procs (procs w) = None \<Longrightarrow>
   is_project_running w = (False, None)"
  by (simp add: is_project_running_def pid_file_check_def)

lemma stop_project_service_idle:
  "\<not> fst (is_project_running w) \<Longrightarrow> stop_project_service w = (True, w)"
  by (auto simp: stop_project_service_def split: prod.splits option.splits)

lemma stop_project_service_again:
  assumes ok: "fst (stop_project_service w)"
    and none: "scan_procs (procs (snd (stop_project_service w))) = None"
  shows "stop_project_service (snd (stop_project_service w)) = (True, snd (stop_project_service w))"
proof (cases "is_project_running w")
  case (Pair running found)
  show ?thesis
  proof (cases "\<exists>pid. found = Some pid \<and> running \<and> pid \<noteq> 0")
    case True
    then obtain pid where f: "found = Some pid" "running" "pid \<noteq> 0" by blast
    have eq: "stop_project_service w = stop_pid pid w"
      using Pair f by (simp add: stop_project_service_def)
    have "files (snd (stop_pid pid w)) (Path project_pid_file) = None"
      using ok unfolding eq by (rule stop_pid_success_pid_file)
    then have "is_project_running (snd (stop_pid pid w)) = (False, None)"
      using none unfolding eq by (rule idle_after_removal)
    then show ?thesis
      unfolding eq by (simp add: stop_project_service_def)
  next
    case False
    then have "stop_project_service w = (True, w)"
      using Pair by (cases found) (auto simp: stop_project_service_def)
    then show ?thesis by simp
  qed
qed

section \<open>The audit log readers\<close>

text \<open>
  C1 (every reader skips a line that is not valid JSON and still returns the complete
  records). With a log whose writer was cut off in its second line, \<open>get_audit_log\<close>
  skips the torn line and returns the complete record, but \<open>read_latest_audit_record\<close>
  decodes the last line only and answers \<open>None\<close>, as if the log held no record; with
  limit 1 the torn line also takes the one place \<open>get_audit_log\<close> has.
\<close>

theorem read_latest_torn_log:
  "read_latest_audit_record loads_flat torn_log = None
   \<and> get_audit_log loads_flat torn_log 10 = Inr [JObj [(''timestamp'', JStr ''t1'')]]
   \<and> get_audit_log loads_flat torn_log 1 = Inr []"
  by (simp add: read_latest_audit_record_def get_audit_log_def audit_file_of_def path_exists_def
      open_read_def read_node_def torn_log_def readlines_def recent_lines_def slice_from_def
      loads_flat_def strip_def lstrip_def rstrip_def is_space_def)

text \<open>
  C2: when the audit log is read as \<open>k\<close> lines that all decode and the limit \<open>n\<close> is
  positive, \<open>get_audit_log\<close> returns \<open>min k n\<close> records, most recent first: record
  \<open>i\<close> (counted from 0) is the decoding of line \<open>k - 1 - i\<close> (counted from 0), which
  is the spec's record \<open>i\<close> from line \<open>k - i + 1\<close> when both are counted from 1.
\<close>

theorem get_audit_log_recent:
  assumes af: "audit_file_of loads fs = Inr audit_file"
    and ex: "path_exists fs audit_file = Inr True"
    and rd: "open_read fs audit_file = Inr text"
    and wf: "\<forall>l \<in> set (readlines text). \<exists>r. loads (strip l) = Inr r"
    and pos: "0 < n"
  shows "\<exists>records. get_audit_log loads fs n = Inr records
           \<and> length records = min (length (readlines text)) (nat n)
           \<and> (\<forall>i < length records.
                 loads (strip (readlines text ! (length (readlines text) - 1 - i)))
                   = Inr (records ! i))"
proof -
  define ls where "ls = readlines text"
  define k where "k = length ls"
  define f where "f = (\<lambda>l. projr (loads (strip l)))"
  define sel where "sel = rev (recent_lines n ls)"
  have dec: "\<forall>l \<in> set ls. loads (strip l) = Inr (f l)"
    using wf by (auto simp: ls_def f_def)
  have sel_eq: "sel = rev (drop (k - nat n) ls)"
    using pos by (simp add: sel_def recent_lines_pos k_def)
  have sub: "set sel \<subseteq> set ls"
    by (auto simp: sel_eq dest: in_set_dropD)
  have coll: "collect_records loads [] sel = Inr (map f sel)"
    using collect_records_all[of sel loads f "[]"] dec sub by auto
  have res: "get_audit_log loads fs n = Inr (map f sel)"
    using af ex rd coll by (simp add: get_audit_log_def sel_def ls_def)
  have len: "length (map f sel) = min k (nat n)"
    by (simp add: sel_eq k_def min_def)
  have nth: "loads (strip (ls ! (k - 1 - i))) = Inr (map f sel ! i)"
    if "i < length (map f sel)" for i
  proof -
    have i: "i < min k (nat n)" using that len by simp
    have "sel ! i = drop (k - nat n) ls ! (length (drop (k - nat n) ls) - 1 - i)"
      using i by (simp add: sel_eq rev_nth k_def min_def split: if_splits)
    also have "\<dots> = ls ! (k - 1 - i)"
      using i by (auto simp: k_def min_def split: if_splits)
    finally have "sel ! i = ls ! (k - 1 - i)" .
    moreover have "sel ! i \<in> set ls" using sub that by (auto simp: subset_iff)
    ultimately show ?thesis using dec that by auto
  qed
  show ?thesis
    using res len nth by (auto simp: ls_def k_def)
qed

theorem get_audit_log_recent_witness:
  "get_audit_log loads_flat three_records 2 =
     Inr [JObj [(''timestamp'', JStr ''t3'')], JObj [(''timestamp'', JStr ''t2'')]]"
proof -
  let ?text = "''{\"timestamp\": \"t1\"}'' @ [CHR 0x0A] @
               ''{\"timestamp\": \"t2\"}'' @ [CHR 0x0A] @
               ''{\"timestamp\": \"t3\"}'' @ [CHR 0x0A]"
  have af: "audit_file_of loads_flat three_records = Inr (JStr ''audit.log'')"
    by (simp add: audit_file_of_def three_records_def)
  have ex: "path_exists three_records (JStr ''audit.log'') = Inr True"
    by (simp add: path_exists_def three_records_def)
  have rd: "open_read three_records (JStr ''audit.log'') = Inr ?text"
    by (simp add: open_read_def read_node_def three_records_def)
  have wf: "\<forall>l \<in> set (readlines ?text). \<exists>r. loads_flat (strip l) = Inr r"
    unfolding three_records_lines using loads_flat_t1 loads_flat_t2 loads_flat_t3 by simp
  obtain records where r: "get_audit_log loads_flat three_records 2 = Inr records"
    and len: "length records = min (length (readlines ?text)) (nat 2)"
    and nth: "\<forall>i < length records.
        loads_flat (strip (readlines ?text ! (length (readlines ?text) - 1 - i))) = Inr (records ! i)"
    using get_audit_log_recent[OF af ex rd wf, of 2] by auto
  have l2: "length records = 2"
    using len unfolding three_records_lines by simp
  have n0: "records ! 0 = JObj [(''timestamp'', JStr ''t3'')]"
    using nth[rule_format, of 0] l2 loads_flat_t3 unfolding three_records_lines by simp
  have n1: "records ! 1 = JObj [(''timestamp'', JStr ''t2'')]"
    using nth[rule_format, of 1] l2 loads_flat_t2 unfolding three_records_lines by simp
  have "records = [records ! 0, records ! 1]"
    using l2 by (cases records; cases "tl records"; cases "tl (tl records)") auto
  then show ?thesis using r n0 n1 by simp
qed

text \<open>
  C10 as stated (no audit log gives the empty record list, never an error) fails after a
  configure request that gives \<open>null\<close> for \<open>audit_log_path\<close>: the request is
  accepted and \<open>config.json\<close> is written with that \<open>null\<close>, after which
  \<open>os.path.exists(None)\<close> raises \<open>TypeError\<close> and \<open>get_audit_log\<close> answers with
  status 500 although no log exists. A \<open>config.json\<close> that is cut off does the same.
\<close>

theorem get_audit_log_null_path:
  "fst (configure_service dumps_indent2 body_null_path idle_world) =
     Inr ''Portfolio service configured and started successfully (PID: 200)''
   \<and> files (snd (configure_service dumps_indent2 body_null_path idle_world)) (Path ''audit.log'') = None
   \<and> audit_file_of loads_flat (files (snd (configure_service dumps_indent2 body_null_path idle_world)))
       = Inr JNull
   \<and> get_audit_log loads_flat (files (snd (configure_service dumps_indent2 body_null_path idle_world))) 10
       = Inl (HTTPException 500)
   \<and> corrupt_config (Path ''audit.log'') = None
   \<and> get_audit_log loads_flat corrupt_config 10 = Inl (HTTPException 500)"
  by code_simp

text \<open>
  C10, amended: \<open>get_audit_log\<close> returns the empty record list, whatever the limit,
  when the audit log does not exist and its path can be told: there is no
  \<open>config.json\<close> and no \<open>audit.log\<close>, or \<open>config.json\<close> decodes to an object
  whose \<open>audit_log_path\<close> is a string (\<open>audit.log\<close> when the key is missing) that
  names no file. When \<open>config.json\<close> does not decode, or its \<open>audit_log_path\<close> is
  \<open>null\<close>, the answer is the error with status 500.
\<close>

theorem get_audit_log_missing:
  "(fs (Path ''config.json'') = None \<and> fs (Path ''audit.log'') = None \<longrightarrow>
      get_audit_log loads fs limit = Inr [])
   \<and> (fs (Path ''config.json'') = Some (File config_text) \<and> loads config_text = Inr (JObj kvs)
        \<and> map_of kvs ''audit_log_path'' = None \<and> fs (Path ''audit.log'') = None \<longrightarrow>
      get_audit_log loads fs limit = Inr [])
   \<and> (fs (Path ''config.json'') = Some (File config_text) \<and> loads config_text = Inr (JObj kvs)
        \<and> map_of kvs ''audit_log_path'' = Some (JStr p) \<and> fs (Path p) = None \<longrightarrow>
      get_audit_log loads fs limit = Inr [])
   \<and> (fs (Path ''config.json'') = Some (File config_text) \<and> loads config_text = Inr (JObj kvs)
        \<and> map_of kvs ''audit_log_path'' = Some JNull \<longrightarrow>
      get_audit_log loads fs limit = Inl (HTTPException 500))
   \<and> (fs (Path ''config.json'') = Some (File config_text) \<and> loads config_text = Inl e \<longrightarrow>
      get_audit_log loads fs limit = Inl (HTTPException 500))"
proof -
  have absent: "path_exists fs (JStr q) = Inr False" if "fs (Path q) = None" for q
    using that by (simp add: path_exists_def)
  have null: "path_exists fs JNull = Inl TypeError"
    by (simp add: path_exists_def)
  have a: "get_audit_log loads fs limit = Inr []"
    if "fs (Path ''config.json'') = None" "fs (Path ''audit.log'') = None"
    using that absent[of "''audit.log''"] by (simp add: get_audit_log_def audit_file_of_def)
  have cfg: "audit_file_of loads fs = dict_get (JObj kvs) ''audit_log_path'' (JStr ''audit.log'')"
    if "fs (Path ''config.json'') = Some (File config_text)" "loads config_text = Inr (JObj kvs)"
    using that by (simp add: audit_file_of_def read_node_def)
  have b: "get_audit_log loads fs limit = Inr []"
    if "fs (Path ''config.json'') = Some (File config_text)" "loads config_text = Inr (JObj kvs)"
      "map_of kvs ''audit_log_path'' = None" "fs (Path ''audit.log'') = None"
    using cfg[OF that(1,2)] that(3) absent[OF that(4)]
    by (simp add: get_audit_log_def dict_get_def)
  have c: "get_audit_log loads fs limit = Inr []"
    if "fs (Path ''config.json'') = Some (File config_text)" "loads config_text = Inr (JObj kvs)"
      "map_of kvs ''audit_log_path'' = Some (JStr p)" "fs (Path p) = None"
    using cfg[OF that(1,2)] that(3) absent[OF that(4)]
    by (simp add: get_audit_log_def dict_get_def)
  have d: "get_audit_log loads fs limit = Inl (HTTPException 500)"
    if "fs (Path ''config.json'') = Some (File config_text)" "loads config_text = Inr (JObj kvs)"
      "map_of kvs ''audit_log_path'' = Some JNull"
    using cfg[OF that(1,2)] that(3) null
    by (simp add: get_audit_log_def dict_get_def)
  have e: "get_audit_log loads fs limit = Inl (HTTPException 500)"
    if "fs (Path ''config.json'') = Some (File config_text)" "loads config_text = Inl e"
    using that by (simp add: get_audit_log_def audit_file_of_def read_node_def)
  show ?thesis using a b c d e by blast
qed

theorem get_audit_log_missing_witness:
  "get_audit_log loads_flat Map.empty (- 3) = Inr []
   \<and> moved_log (Path ''logs/audit.log'') = None
   \<and> get_audit_log loads_flat moved_log 10 = Inr []
   \<and> get_audit_log loads_flat corrupt_config 10 = Inl (HTTPException 500)"
proof -
  have n: "Map.empty (Path ''config.json'') = (None :: node option)"
    "Map.empty (Path ''audit.log'') = (None :: node option)"
    by simp_all
  have m1: "moved_log (Path ''config.json'') = Some (File ''{\"audit_log_path\": \"logs/audit.log\"}'')"
    and m2: "moved_log (Path ''logs/audit.log'') = None"
    by (simp_all add: moved_log_def)
  have m3: "loads_flat ''{\"audit_log_path\": \"logs/audit.log\"}''
      = Inr (JObj [(''audit_log_path'', JStr ''logs/audit.log'')])"
    by (simp add: loads_flat_def)
  have m4: "map_of [(''audit_log_path'', JStr ''logs/audit.log'')] ''audit_log_path''
      = Some (JStr ''logs/audit.log'')"
    by simp
  have c1: "corrupt_config (Path ''config.json'') = Some (File ''{\"audit_log_path\": \"aud'')"
    by (simp add: corrupt_config_def)
  have c2: "loads_flat ''{\"audit_log_path\": \"aud'' = Inl JSONDecodeError"
    by (simp add: loads_flat_def)
  show ?thesis
    using n m1 m2 m3 m4 c1 c2
      get_audit_log_missing[where fs = Map.empty and loads = loads_flat and limit = "- 3"]
      get_audit_log_missing[where fs = moved_log and loads = loads_flat and limit = 10
        and config_text = "''{\"audit_log_path\": \"logs/audit.log\"}''"
        and kvs = "[(''audit_log_path'', JStr ''logs/audit.log'')]" and p = "''logs/audit.log''"]
      get_audit_log_missing[where fs = corrupt_config and loads = loads_flat and limit = 10
        and config_text = "''{\"audit_log_path\": \"aud''" and e = JSONDecodeError]
    by simp
qed

section \<open>Configuration validation\<close>

text \<open>
  C3: constructing a \<open>PortfolioConfig\<close> fails, with no snapshot produced, whenever the
  asset list is empty, holds a symbol twice, the risk-free rate is outside [0,1] or the
  minimum weight is not below the maximum weight, and the failure names the violated
  rule; the asset list BTC, ETH, BTC fails with the duplicate-symbol error.
\<close>

theorem PortfolioConfig_rejects:
  "(assets c = [] \<or> \<not> distinct (assets c) \<or> pc_risk_free_rate c < 0 \<or> 1 < pc_risk_free_rate c
      \<or> max_weight_per_asset c \<le> min_weight_per_asset c \<longrightarrow>
        PortfolioConfig c = Inl (violations c) \<and> violations c \<noteq> [])
   \<and> (assets c = [] \<longrightarrow> EmptyAssets \<in> set (violations c))
   \<and> (\<not> distinct (assets c) \<longrightarrow> DuplicateSymbols \<in> set (violations c))
   \<and> (pc_risk_free_rate c < 0 \<or> 1 < pc_risk_free_rate c \<longrightarrow>
        RiskFreeRateRange \<in> set (violations c))
   \<and> (max_weight_per_asset c \<le> min_weight_per_asset c \<longrightarrow> WeightOrder \<in> set (violations c))
   \<and> PortfolioConfig btc_eth_btc = Inl [DuplicateSymbols]"
  by (auto simp: PortfolioConfig_def violations_def btc_eth_btc_def)

theorem PortfolioConfig_rejects_witness:
  "\<not> distinct (assets btc_eth_btc)
   \<and> PortfolioConfig btc_eth_btc = Inl (violations btc_eth_btc)
   \<and> DuplicateSymbols \<in> set (violations btc_eth_btc)"
proof -
  have d: "\<not> distinct (assets btc_eth_btc)" by (simp add: btc_eth_btc_def)
  show ?thesis using d PortfolioConfig_rejects[of btc_eth_btc] by simp
qed

section \<open>Stopping and restarting the engine\<close>



text \<open>
  C9 as stated (\<open>stop\<close> followed by \<open>stop\<close> has the outcome of one \<open>stop\<close>) fails
  when a second process with \<open>project.py\<close> in its command line is left that the
  supervisor may not signal: the first \<open>stop\<close> reports success, the second one fails.
\<close>

theorem stop_service_twice_differs:
  "fst (stop_service two_engines) = Inr ''Portfolio service stopped successfully''
   \<and> fst (stop_service (snd (stop_service two_engines))) = Inl (HTTPException 500)"
  by code_simp

text \<open>
  C9, amended: \<open>stop\<close> invoked when the liveness check finds no engine process reports
  success and changes nothing; and a \<open>stop\<close> that follows a successful \<open>stop\<close> reports
  the same success and changes nothing, provided the first one left no process with
  \<open>project.py\<close> in its command line.
\<close>

theorem stop_service_idle:
  "(\<not> fst (is_project_running w) \<longrightarrow>
      stop_service w = (Inr ''Portfolio service stopped successfully'', w))
   \<and> (fst (stop_service w) = Inr m \<and> scan_procs (procs (snd (stop_service w))) = None \<longrightarrow>
      stop_service (snd (stop_service w)) = (Inr m, snd (stop_service w)))"
proof -
  have a: "stop_service w = (Inr ''Portfolio service stopped successfully'', w)"
    if "\<not> fst (is_project_running w)"
    using stop_project_service_idle[OF that] by (simp add: stop_service_def)
  have b: "stop_service (snd (stop_service w)) = (Inr m, snd (stop_service w))"
    if h: "fst (stop_service w) = Inr m" "scan_procs (procs (snd (stop_service w))) = None"
  proof -
    have w': "snd (stop_service w) = snd (stop_project_service w)"
      by (auto simp: stop_service_def split: prod.splits bool.splits)
    have ok: "fst (stop_project_service w)" and m: "m = ''Portfolio service stopped successfully''"
      using h(1) by (auto simp: stop_service_def split: prod.splits bool.splits)
    have "stop_project_service (snd (stop_project_service w)) = (True, snd (stop_project_service w))"
      using ok h(2) unfolding w' by (rule stop_project_service_again)
    then show ?thesis
      unfolding w' by (simp add: stop_service_def m)
  qed
  show ?thesis using a b by blast
qed

theorem stop_service_idle_witness:
  "\<not> fst (is_project_running idle_world)
   \<and> stop_service idle_world = (Inr ''Portfolio service stopped successfully'', idle_world)
   \<and> fst (stop_service one_engine) = Inr ''Portfolio service stopped successfully''
   \<and> scan_procs (procs (snd (stop_service one_engine))) = None
   \<and> stop_service (snd (stop_service one_engine)) =
       (Inr ''Portfolio service stopped successfully'', snd (stop_service one_engine))"
proof -
  have a: "\<not> fst (is_project_running idle_world)" by code_simp
  have b: "fst (stop_service one_engine) = Inr ''Portfolio service stopped successfully''"
    by code_simp
  have c: "scan_procs (procs (snd (stop_service one_engine))) = None" by code_simp
  show ?thesis
    using a b c stop_service_idle[of idle_world "''Portfolio service stopped successfully''"]
      stop_service_idle[of one_engine "''Portfolio service stopped successfully''"]
    by simp
qed


section \<open>Configure\<close>

text \<open>
  C8: a configure request whose \<open>api_base_url\<close> does not begin with \<open>https://\<close> is
  answered with the validation error and the world is as before: no file is written, no
  signal sent and no process started.
\<close>

theorem configure_service_rejects_non_https:
  assumes "\<not> startswith ''https://'' (body_api_base_url body)"
  shows "configure_service dumps body w = (Inl (HTTPException 422), w)"
  using assms by (simp add: configure_service_def validate_request_def validate_https_url_def)

theorem configure_service_rejects_non_https_witness:
  "\<not> startswith ''https://'' (body_api_base_url body_http)
   \<and> configure_service dumps_indent2 body_http one_engine = (Inl (HTTPException 422), one_engine)"
proof -
  have h: "\<not> startswith ''https://'' (body_api_base_url body_http)"
    by (simp add: body_http_def body_defaults_def startswith_def)
  show ?thesis
    using h configure_service_rejects_non_https[OF h, of dumps_indent2 one_engine] by simp
qed

text \<open>
  C5: after a configure request that passes validation (and with \<open>.env\<close> and
  \<open>config.json\<close> writable), \<open>config.json\<close> holds the encoding of the JSON object with
  exactly the seven fields, each the request's value, \<open>null\<close> for an explicit
  \<open>null\<close>, or the default when the request omits the field.
\<close>

theorem configure_service_config_file:
  assumes url: "startswith ''https://'' (body_api_base_url body)"
    and env: "files w (Path ''.env'') \<noteq> Some Dir"
    and cfg: "files w (Path ''config.json'') \<noteq> Some Dir"
  shows "files (snd (configure_service dumps body w)) (Path ''config.json'') =
     Some (File (dumps (JObj
       [(''risk_free_rate'',
           opt_json JFloat (with_default (Some (2 / 100)) (body_risk_free_rate body))),
        (''rebalance_interval'',
           opt_json JInt (with_default (Some 300) (body_rebalance_interval body))),
        (''target_sharpe'',
           opt_json JFloat (with_default None (body_target_sharpe body))),
        (''cov_window'',
           opt_json JInt (with_default (Some 60) (body_cov_window body))),
        (''price_endpoint'',
           opt_json JStr (with_default (Some ''/prices'') (body_price_endpoint body))),
        (''position_endpoint'',
           opt_json JStr (with_default (Some ''/positions'') (body_position_endpoint body))),
        (''audit_log_path'',
           opt_json JStr (with_default (Some ''audit.log'') (body_audit_log_path body)))])))"
    (is "_ = Some (File (dumps ?data))")
proof -
  obtain config where v: "validate_request body = Inr config"
    using url by (simp add: validate_request_def validate_https_url_def)
  have data: "config_data config = ?data"
    using v url by (auto simp: validate_request_def validate_https_url_def config_data_def)
  define w1 where "w1 = snd (stop_project_service w)"
  define w2 where "w2 = w1\<lparr>files := (files w1)(Path ''.env'' \<mapsto> File (env_content config))\<rparr>"
  define w3 where "w3 = w2\<lparr>files := (files w2)(Path ''config.json'' \<mapsto> File (dumps ?data))\<rparr>"
  have e1: "files w1 (Path ''.env'') \<noteq> Some Dir" "files w1 (Path ''config.json'') \<noteq> Some Dir"
    using env cfg by (simp_all add: w1_def stop_files_other project_pid_file_def)
  have s2: "create_env_file config w1 = (Inr (), w2)"
    using e1 by (simp add: create_env_file_def write_file_ok w2_def)
  have e2: "files w2 (Path ''config.json'') \<noteq> Some Dir"
    using e1 by (simp add: w2_def)
  have s3: "create_config_file dumps config w2 = (Inr (), w3)"
    using e2 by (simp add: create_config_file_def write_file_ok w3_def data)
  have f3: "files w3 (Path ''config.json'') = Some (File (dumps ?data))"
    by (simp add: w3_def)
  have f4: "files (snd (start_project_service w3)) (Path ''config.json'') = Some (File (dumps ?data))"
    using f3 by (simp add: start_files_other project_pid_file_def)
  have "files (snd (configure_service dumps body w)) (Path ''config.json'')
      = files (snd (start_project_service w3)) (Path ''config.json'')"
    using v s2 s3
    by (auto simp: configure_service_def Let_def w1_def[symmetric]
        split: prod.splits sum.splits bool.splits option.splits)
  then show ?thesis using f4 by simp
qed

theorem configure_service_config_file_witness:
  "files (snd (configure_service dumps_indent2 body_defaults one_engine)) (Path ''config.json'') =
     Some (File (dumps_indent2 (JObj
       [(''risk_free_rate'', JFloat (2 / 100)),
        (''rebalance_interval'', JInt 120),
        (''target_sharpe'', JNull),
        (''cov_window'', JNull),
        (''price_endpoint'', JStr ''/prices''),
        (''position_endpoint'', JStr ''/positions''),
        (''audit_log_path'', JStr ''audit.log'')])))"
proof -
  have url: "startswith ''https://'' (body_api_base_url body_defaults)"
    by (simp add: body_defaults_def startswith_def)
  have env: "files one_engine (Path ''.env'') \<noteq> Some Dir"
    and cfg: "files one_engine (Path ''config.json'') \<noteq> Some Dir"
    by (simp_all add: one_engine_def)
  show ?thesis
    using configure_service_config_file[OF url env cfg, of dumps_indent2]
    by (simp add: body_defaults_def with_default_def opt_json_def)
qed

text \<open>
  C6 as stated (the credential file has exactly two lines for every request) fails for an
  access token that holds a line break: the file then has three lines, the third one a
  binding the request's author chose.
\<close>

theorem create_env_file_three_lines:
  "create_env_file multiline_key idle_world =
     (Inr (), idle_world\<lparr>files := Map.empty(Path ''.env'' \<mapsto>
        File (''API_URL=https://venue.example'' @ [CHR 0x0A] @
              ''API_TOKEN=k1'' @ [CHR 0x0A] @ ''API_SECRET=s3'' @ [CHR 0x0A]))\<rparr>)
   \<and> readlines (''API_URL=https://venue.example'' @ [CHR 0x0A] @
              ''API_TOKEN=k1'' @ [CHR 0x0A] @ ''API_SECRET=s3'' @ [CHR 0x0A]) =
       [''API_URL=https://venue.example'' @ [CHR 0x0A],
        ''API_TOKEN=k1'' @ [CHR 0x0A],
        ''API_SECRET=s3'' @ [CHR 0x0A]]"
  by (simp add: create_env_file_def env_content_def write_file_def multiline_key_def
      idle_world_def readlines_def)

text \<open>
  C6, amended: the credential file is the text \<open>API_URL=\<close>, the venue URL, a line
  break, \<open>API_TOKEN=\<close>, the access token, a line break; these are exactly two lines
  whenever neither value holds a line break; and the text does not depend on
  \<open>api_secret\<close>.
\<close>

theorem create_env_file_content:
  assumes "files w (Path ''.env'') \<noteq> Some Dir"
  shows "create_env_file config w =
           (Inr (), w\<lparr>files := (files w)(Path ''.env'' \<mapsto>
              File (''API_URL='' @ api_base_url config @ [CHR 0x0A] @
                    ''API_TOKEN='' @ api_key config @ [CHR 0x0A]))\<rparr>)
       \<and> (CHR 0x0A \<notin> set (api_base_url config @ api_key config)
            \<and> CHR 0x0D \<notin> set (api_base_url config @ api_key config) \<longrightarrow>
          readlines (''API_URL='' @ api_base_url config @ [CHR 0x0A] @
                     ''API_TOKEN='' @ api_key config @ [CHR 0x0A]) =
            [''API_URL='' @ api_base_url config @ [CHR 0x0A],
             ''API_TOKEN='' @ api_key config @ [CHR 0x0A]])
       \<and> create_env_file (config\<lparr>api_secret := secret\<rparr>) w = create_env_file config w"
proof -
  let ?u = "''API_URL='' @ api_base_url config" and ?k = "''API_TOKEN='' @ api_key config"
  have a: "create_env_file config w =
           (Inr (), w\<lparr>files := (files w)(Path ''.env'' \<mapsto>
              File (?u @ [CHR 0x0A] @ ?k @ [CHR 0x0A]))\<rparr>)"
    using assms by (simp add: create_env_file_def env_content_def write_file_ok)
  have b: "readlines (?u @ [CHR 0x0A] @ ?k @ [CHR 0x0A]) = [?u @ [CHR 0x0A], ?k @ [CHR 0x0A]]"
    if nl: "CHR 0x0A \<notin> set (api_base_url config @ api_key config)"
      and cr: "CHR 0x0D \<notin> set (api_base_url config @ api_key config)"
  proof -
    have "CHR 0x0D \<notin> set (?u @ [CHR 0x0A] @ ?k @ [CHR 0x0A])"
      using cr by simp
    then have t: "translate_newlines (?u @ [CHR 0x0A] @ ?k @ [CHR 0x0A])
        = ?u @ [CHR 0x0A] @ ?k @ [CHR 0x0A]"
      by (rule translate_newlines_id)
    have nu: "CHR 0x0A \<notin> set ?u" and nk: "CHR 0x0A \<notin> set ?k"
      using nl by simp_all
    have "split_lines [] (?u @ CHR 0x0A # (?k @ CHR 0x0A # []))
        = ([] @ ?u @ [CHR 0x0A]) # split_lines [] (?k @ CHR 0x0A # [])"
      using nu by (rule split_lines_line)
    also have "split_lines [] (?k @ CHR 0x0A # []) = ([] @ ?k @ [CHR 0x0A]) # split_lines [] []"
      using nk by (rule split_lines_line)
    finally have "split_lines [] (?u @ [CHR 0x0A] @ ?k @ [CHR 0x0A])
        = [?u @ [CHR 0x0A], ?k @ [CHR 0x0A]]"
      by simp
    then show ?thesis
      unfolding readlines_def t .
  qed
  have c: "create_env_file (config\<lparr>api_secret := secret\<rparr>) w = create_env_file config w"
    by (simp add: create_env_file_def env_content_def)
  show ?thesis using a b c by (simp del: append.simps set_append)
qed

theorem create_env_file_content_witness:
  "files idle_world (Path ''.env'') \<noteq> Some Dir
   \<and> readlines (''API_URL=https://venue.example'' @ [CHR 0x0A] @ ''API_TOKEN=k1'' @ [CHR 0x0A]) =
       [''API_URL=https://venue.example'' @ [CHR 0x0A], ''API_TOKEN=k1'' @ [CHR 0x0A]]
   \<and> create_env_file (plain_key\<lparr>api_secret := Some ''other''\<rparr>) idle_world
       = create_env_file plain_key idle_world"
proof -
  have h: "files idle_world (Path ''.env'') \<noteq> Some Dir"
    by (simp add: idle_world_def)
  have u: "api_base_url plain_key = ''https://venue.example''" and k: "api_key plain_key = ''k1''"
    by (simp_all add: plain_key_def multiline_key_def)
  show ?thesis
    using h create_env_file_content[OF h, of plain_key "Some ''other''"]
    unfolding u k by simp
qed

end
